theory Spec2Isabelle
  imports Main "HOL-Library.Word"
begin

section \<open>The checkpoint registry of \<^verbatim>\<open>src/checkpoints/checkpoints.cpp\<close>\<close>

subsection \<open>Data model\<close>

text \<open>
  A height is a \<^verbatim>\<open>uint64_t\<close>, a \<^verbatim>\<open>crypto::hash\<close> is a POD of 32 bytes compared
  bytewise. The member \<^verbatim>\<open>m_points\<close> is a \<^verbatim>\<open>std::map<uint64_t, crypto::hash>\<close>: its
  entries are held in strictly ascending key order, which is what the list of pairs
  below stands for. An iterator is a position in that list; \<^verbatim>\<open>end()\<close> is the length.
\<close>

type_synonym height = "64 word"
type_synonym hash = "8 word list"
type_synonym points = "(height \<times> hash) list"

definition ordered_points :: "points \<Rightarrow> bool" where
  "ordered_points m = sorted_wrt (<) (map fst m)"

definition null_hash :: hash where
  "null_hash = replicate 32 0"

text \<open>
  A method returning \<^verbatim>\<open>bool\<close> returns \<^verbatim>\<open>true\<close> (\<open>Ok\<close>) or logs a message and
  returns \<^verbatim>\<open>false\<close> (\<open>Failed\<close>, with the check that fired). A \<open>fault\<close> is what is
  outside the defined behaviour of the container: reading through \<^verbatim>\<open>end()\<close>, or the
  exception of \<^verbatim>\<open>std::map::at\<close>.
\<close>

datatype error = ParseError | ConflictError | LoadError

datatype status = Ok | Failed error

datatype fault = EndDereferenced | OutOfRange

record t_hashline =
  height :: "64 word"
  hash :: string

record t_hash_json =
  hashlines :: "t_hashline list"

datatype hashfile = Malformed | Document t_hash_json

type_synonym filesystem = "string \<rightharpoonup> hashfile"

datatype network_type = MAINNET | TESTNET | STAGENET | FAKECHAIN | UNDEFINED

subsection \<open>The hash codec\<close>

text \<open>
  Modelled from the spec: the codec \<^verbatim>\<open>epee::string_tools::hex_to_pod\<close> is not part of
  the module. A hash is written as 64 hexadecimal characters, two for each of its 32
  bytes, the high digit first; \<open>hex_digit\<close> and \<open>hex_bytes\<close> decode a digit and a
  run of such pairs.
\<close>

definition hex_digit :: "char \<Rightarrow> nat option" where
  "hex_digit c =
     (let n = (of_char c :: nat)
      in if 48 \<le> n \<and> n \<le> 57 then Some (n - 48)
         else if 97 \<le> n \<and> n \<le> 102 then Some (n - 87)
         else if 65 \<le> n \<and> n \<le> 70 then Some (n - 55)
         else None)"

fun hex_bytes :: "string \<Rightarrow> 8 word list option" where
  "hex_bytes [] = Some []"
| "hex_bytes [c] = None"
| "hex_bytes (c # d # cs) =
     (case hex_digit c of
        None \<Rightarrow> None
      | Some hi \<Rightarrow>
          (case hex_digit d of
             None \<Rightarrow> None
           | Some lo \<Rightarrow>
               (case hex_bytes cs of
                  None \<Rightarrow> None
                | Some bs \<Rightarrow> Some (of_nat (16 * hi + lo) # bs))))"

text \<open>
  Modelled from the spec: \<^verbatim>\<open>epee::string_tools::hex_to_pod\<close> is not part of the
  module. The text decodes to exactly 32 bytes (64 hexadecimal characters); any other
  length or non-hex content is a decode failure.
\<close>

definition hex_to_pod :: "string \<Rightarrow> hash option" where
  "hex_to_pod hex_str = (if length hex_str = 64 then hex_bytes hex_str else None)"

subsection \<open>The operations of the ordered map\<close>

definition map_begin :: "points \<Rightarrow> nat" where
  "map_begin m = 0"

definition map_end :: "points \<Rightarrow> nat" where
  "map_end m = length m"

definition map_empty :: "points \<Rightarrow> bool" where
  "map_empty m = (m = [])"

fun map_find :: "points \<Rightarrow> height \<Rightarrow> nat" where
  "map_find [] k = 0"
| "map_find (p # ps) k = (if fst p = k then 0 else Suc (map_find ps k))"

definition map_count :: "points \<Rightarrow> height \<Rightarrow> nat" where
  "map_count m k = (if map_find m k = map_end m then 0 else 1)"

definition map_at :: "points \<Rightarrow> height \<Rightarrow> fault + hash" where
  "map_at m k =
     (let it = map_find m k
      in if it = map_end m then Inl OutOfRange else Inr (snd (m ! it)))"

fun map_upper_bound :: "points \<Rightarrow> height \<Rightarrow> nat" where
  "map_upper_bound [] k = 0"
| "map_upper_bound (p # ps) k =
     (if k < fst p then 0 else Suc (map_upper_bound ps k))"

text \<open>
  \<^verbatim>\<open>m[k]\<close> gives a reference to the slot of \<open>k\<close>, after inserting a
  value-initialised slot at its place in the order when the key is absent.
\<close>

fun map_subscript :: "points \<Rightarrow> height \<Rightarrow> points" where
  "map_subscript [] k = [(k, null_hash)]"
| "map_subscript (p # ps) k =
     (if k < fst p then (k, null_hash) # p # ps
      else if k = fst p then p # ps
      else p # map_subscript ps k)"

definition ref_get :: "points \<Rightarrow> height \<Rightarrow> hash" where
  "ref_get m k = snd (m ! map_find m k)"

fun ref_set :: "points \<Rightarrow> height \<Rightarrow> hash \<Rightarrow> points" where
  "ref_set [] k v = []"
| "ref_set (p # ps) k v =
     (if fst p = k then (k, v) # ps else p # ref_set ps k v)"

text \<open>
  \<^verbatim>\<open>std::max_element\<close> with the comparison of the keys: the range is walked once
  and the position of the first greatest element is kept; on an empty range the
  result is its end.
\<close>

fun max_element_loop :: "points \<Rightarrow> nat \<Rightarrow> height \<Rightarrow> nat \<Rightarrow> nat" where
  "max_element_loop [] first largest_key largest = largest"
| "max_element_loop (p # ps) first largest_key largest =
     (if largest_key < fst p then max_element_loop ps (Suc first) (fst p) first
      else max_element_loop ps (Suc first) largest_key largest)"

definition max_element :: "points \<Rightarrow> nat" where
  "max_element m =
     (case m of
        [] \<Rightarrow> map_end m
      | p # ps \<Rightarrow> max_element_loop ps (Suc (map_begin m)) (fst p) (map_begin m))"

subsection \<open>The methods of \<^verbatim>\<open>checkpoints\<close>\<close>

definition add_checkpoint :: "height \<Rightarrow> string \<Rightarrow> points \<Rightarrow> status \<times> points" where
  "add_checkpoint ht hash_str m_points =
     (case hex_to_pod hash_str of
        None \<Rightarrow> (Failed ParseError, m_points)
      | Some h \<Rightarrow>
          if map_count m_points ht \<noteq> 0 then
            (let m1 = map_subscript m_points ht
             in if h = ref_get m1 ht
                then (Ok, ref_set (map_subscript m1 ht) ht h)
                else (Failed ConflictError, m1))
          else (Ok, ref_set (map_subscript m_points ht) ht h))"

definition is_in_checkpoint_zone :: "points \<Rightarrow> height \<Rightarrow> bool" where
  "is_in_checkpoint_zone m_points ht =
     (\<not> map_empty m_points \<and> ht \<le> fst (m_points ! (map_end m_points - 1)))"

text \<open>The result of \<open>check_block\<close> is the returned flag and \<^verbatim>\<open>is_a_checkpoint\<close>.\<close>

definition check_block :: "points \<Rightarrow> height \<Rightarrow> hash \<Rightarrow> bool \<times> bool" where
  "check_block m_points ht h =
     (let it = map_find m_points ht;
          is_a_checkpoint = (it \<noteq> map_end m_points)
      in if \<not> is_a_checkpoint then (True, is_a_checkpoint)
         else if snd (m_points ! it) = h then (True, is_a_checkpoint)
         else (False, is_a_checkpoint))"

definition is_alternative_block_allowed :: "points \<Rightarrow> height \<Rightarrow> height \<Rightarrow> bool" where
  "is_alternative_block_allowed m_points blockchain_height block_height =
     (if 0 = block_height then False
      else
        (let it = map_upper_bound m_points blockchain_height
         in if it = map_begin m_points then True
            else
              (let checkpoint_height = fst (m_points ! (it - 1))
               in checkpoint_height < block_height)))"

definition get_max_height :: "points \<Rightarrow> fault + height" where
  "get_max_height m_points =
     (let highest = max_element m_points
      in if highest = map_end m_points then Inl EndDereferenced
         else Inr (fst (m_points ! highest)))"

definition get_points :: "points \<Rightarrow> points" where
  "get_points m_points = m_points"

text \<open>
  \<open>check_for_conflicts\<close> walks the entries of the other registry. The result carries
  the two maps as they are when the method returns.
\<close>

fun check_for_conflicts_loop ::
  "points \<Rightarrow> points \<Rightarrow> (height \<times> hash) list \<Rightarrow> (fault + status) \<times> points \<times> points" where
  "check_for_conflicts_loop m_points other [] = (Inr Ok, m_points, other)"
| "check_for_conflicts_loop m_points other (pt # pts) =
     (if map_count m_points (fst pt) \<noteq> 0 then
        (case map_at m_points (fst pt) of
           Inl f \<Rightarrow> (Inl f, m_points, other)
         | Inr v \<Rightarrow>
             if snd pt = v then check_for_conflicts_loop m_points other pts
             else (Inr (Failed ConflictError), m_points, other))
      else check_for_conflicts_loop m_points other pts)"

definition check_for_conflicts ::
  "points \<Rightarrow> points \<Rightarrow> (fault + status) \<times> points \<times> points" where
  "check_for_conflicts m_points other =
     check_for_conflicts_loop m_points other (get_points other)"

text \<open>
  Modelled from the spec: the macro \<^verbatim>\<open>ADD_CHECKPOINT\<close> is declared in the header,
  which is not part of the module. Each use goes through \<open>add_checkpoint\<close>, and a
  failed one makes the calling method return \<^verbatim>\<open>false\<close> at once. \<open>add_checkpoints\<close>
  is a run of such uses.
\<close>

fun add_checkpoints :: "(height \<times> string) list \<Rightarrow> points \<Rightarrow> status \<times> points" where
  "add_checkpoints [] m_points = (Ok, m_points)"
| "add_checkpoints (c # cs) m_points =
     (case add_checkpoint (fst c) (snd c) m_points of
        (Ok, m1) \<Rightarrow> add_checkpoints cs m1
      | (Failed e, m1) \<Rightarrow> (Failed e, m1))"

definition mainnet_checkpoints :: "(height \<times> string) list" where
  "mainnet_checkpoints =
     [(0, ''c106ebad646e2dc0f9ab96741b2c320d3435b43d6f6f9660b1f318f33a764ad2''),
      (5, ''40bccdd5ce631f0cc959bb8bf7d3af00c6bae7d93c1a2a9cdcf0d73fb771b8a0''),
      (10, ''45f7a39a86145d97f41dbbbc53b45dc40e7f71cd82a631c8d7d28a7e29d6a94c''),
      (14, ''3cf3d8e066bee9086e4ae8b8e7e9daa214565fc6819ee458c44fdabc497091bc''),
      (18, ''8b064a076d36532d35eae595798021973068d61b893e5ec6f2b07bccd8c54b32''),
      (22, ''7b12fac40ea6a4250ec5d6b6f926d5b75b559b6e6d5f0f81323d6095ebae077b''),
      (26, ''9033f816ad46136e390e6fbafee962ff616cd66445ed62b86447b20feb5b74ed''),
      (30, ''7a22d01f518280d55db3b6276775794b447c52d47ce7170ca6ed7e7959df91e8''),
      (35, ''694565f2d416092520f3ec035783983b61c42e22c6c747550ee72c4e9c4f3b3c''),
      (38, ''4d2b28fa6db6bf242445460e5a9ecc012d4e6b69a3e4365b8ac7f5ba11ee4559''),
      (40, ''93cc7b04ad53df3caa1e9dd251ec711e7772b8edcf50214746978c3f084258e0''),
      (45, ''95dce1c3a9ee47cb2bf8cc56730fb4d5ebf4ea3aef9edbf7442f961e5c000b55''),
      (50, ''c475bc80a36623a941945353f690025caad5db9df2035a44b7931a21e32c9546''),
      (60, ''05936f664158afc7d35f9ae1a1afc6d9c79de96dc9a9e2f0397c126badcdb37d''),
      (66, ''c1f1da7a507e4397c6d4e9a7c42e379bafbce33f83ac9d95aea142e0f2940694''),
      (69, ''154137a51debfbb46494f5319749e93c88aaa2b14af27feae8336962a1465fd5''),
      (70, ''28908e06129e5ce8da5f33f0a0cb84bd07be28b17b8597f17ac0bf060ae3be4c''),
      (71, ''8559184e3fb4e21377429fec6c0f50dbc0b3ec675986037242c60a55f6cb6a56''),
      (72, ''c3c3b1a29d70c4b2b7b2cae8272bbb63ff33e76b11987aec05286d01707eea2a''),
      (78, ''16af409f1d8ca183b565f8a211cd785e45892c51b3b14bf98825591909ed3de0''),
      (25416, ''6bc8e5598098e3743f1a092e5da300f3ef61bed6523a793d5a79c462813bef57''),
      (25417, ''30b8d1fe55235bb43caa405a64e97a63cfb1843122e1cd756ddbace88e4dfaaa'')]"

text \<open>
  The flag \<open>hooks\<close> says whether \<^verbatim>\<open>EVO_ENABLE_INTEGRATION_TEST_HOOKS\<close> is defined, in
  which case the table of the main network is compiled out.
\<close>

definition init_default_checkpoints :: "bool \<Rightarrow> network_type \<Rightarrow> points \<Rightarrow> status \<times> points" where
  "init_default_checkpoints hooks nettype m_points =
     (case nettype of
        STAGENET \<Rightarrow> (Ok, m_points)
      | TESTNET \<Rightarrow> (Ok, m_points)
      | FAKECHAIN \<Rightarrow> (Ok, m_points)
      | UNDEFINED \<Rightarrow> (Ok, m_points)
      | MAINNET \<Rightarrow>
          if hooks then (Ok, m_points) else add_checkpoints mainnet_checkpoints m_points)"

text \<open>
  The loop over the lines of the document. The bound \<open>prev_max_height\<close> is the one
  read before the document was parsed; it does not follow the entries added on the way.
\<close>

fun load_hashlines :: "height \<Rightarrow> t_hashline list \<Rightarrow> points \<Rightarrow> status \<times> points" where
  "load_hashlines prev_max_height [] m_points = (Ok, m_points)"
| "load_hashlines prev_max_height (line # lines) m_points =
     (if height line \<le> prev_max_height then load_hashlines prev_max_height lines m_points
      else
        (case add_checkpoint (height line) (hash line) m_points of
           (Ok, m1) \<Rightarrow> load_hashlines prev_max_height lines m1
         | (Failed e, m1) \<Rightarrow> (Failed e, m1)))"

text \<open>
  The file system answers \<^verbatim>\<open>boost::filesystem::exists\<close> (\<open>None\<close>: no file at the
  path) and holds what \<^verbatim>\<open>load_t_from_json_file\<close> makes of the file: \<open>Malformed\<close>
  when it does not parse into the schema, the parsed document otherwise.
\<close>

definition load_checkpoints_from_json ::
  "filesystem \<Rightarrow> string \<Rightarrow> points \<Rightarrow> fault + (status \<times> points)" where
  "load_checkpoints_from_json fs json_hashfile_fullpath m_points =
     (case fs json_hashfile_fullpath of
        None \<Rightarrow> Inr (Ok, m_points)
      | Some f \<Rightarrow>
          (case get_max_height m_points of
             Inl u \<Rightarrow> Inl u
           | Inr prev_max_height \<Rightarrow>
               (case f of
                  Malformed \<Rightarrow> Inr (Failed LoadError, m_points)
                | Document hashes \<Rightarrow>
                    Inr (load_hashlines prev_max_height (hashlines hashes) m_points))))"

definition load_checkpoints_from_dns :: "network_type \<Rightarrow> points \<Rightarrow> status \<times> points" where
  "load_checkpoints_from_dns nettype m_points = (Ok, m_points)"

section \<open>Facts about the ordered map\<close>

lemma map_find_le: "map_find m k \<le> length m"
  by (induction m) auto

lemma map_find_end_iff: "(map_find m k = length m) = (map_of m k = None)"
  using map_find_le [of m k] by (induction m) auto

lemma map_find_nth: "map_of m k = Some v \<Longrightarrow> m ! map_find m k = (k, v)"
  by (induction m) (auto split: if_splits)

lemma map_count_iff: "(map_count m k \<noteq> 0) = (map_of m k \<noteq> None)"
  by (simp add: map_count_def map_end_def map_find_end_iff)

lemma map_at_present: "map_of m k = Some v \<Longrightarrow> map_at m k = Inr v"
  using map_find_end_iff [of m k]
  by (simp add: map_at_def map_end_def Let_def map_find_nth)

lemma ref_get_present: "map_of m k = Some v \<Longrightarrow> ref_get m k = v"
  by (simp add: ref_get_def map_find_nth)

lemma ref_set_same: "map_of m k = Some v \<Longrightarrow> ref_set m k v = m"
  by (induction m) (auto split: if_splits)

lemma ordered_points_Nil: "ordered_points []"
  by (simp add: ordered_points_def)

lemma ordered_points_Cons:
  "ordered_points (p # ps) = ((\<forall>q \<in> set ps. fst p < fst q) \<and> ordered_points ps)"
  by (auto simp: ordered_points_def)

lemma ordered_points_distinct: "ordered_points m \<Longrightarrow> distinct (map fst m)"
  unfolding ordered_points_def by (simp add: strict_sorted_iff)

lemma map_of_less_head:
  "ordered_points (p # ps) \<Longrightarrow> k < fst p \<Longrightarrow> map_of (p # ps) k = None"
  by (force simp: ordered_points_Cons map_of_eq_None_iff)

lemma map_subscript_present:
  "ordered_points m \<Longrightarrow> map_of m k = Some v \<Longrightarrow> map_subscript m k = m"
proof (induction m)
  case Nil
  then show ?case by simp
next
  case (Cons p ps)
  show ?case
  proof (cases "k < fst p")
    case True
    with Cons.prems map_of_less_head [of p ps k] show ?thesis by simp
  next
    case False
    with Cons show ?thesis by (auto simp: ordered_points_Cons split: if_splits)
  qed
qed

lemma map_subscript_keys: "fst ` set (map_subscript m k) = insert k (fst ` set m)"
  by (induction m) auto

lemma ref_set_keys: "fst ` set (ref_set m k v) = fst ` set m"
  by (induction m) (auto simp: image_iff)

lemma map_subscript_ordered: "ordered_points m \<Longrightarrow> ordered_points (map_subscript m k)"
proof (induction m)
  case Nil
  then show ?case by (simp add: ordered_points_def)
next
  case (Cons p ps)
  have keys: "\<And>q. q \<in> set (map_subscript ps k) \<Longrightarrow> fst q = k \<or> fst q \<in> fst ` set ps"
    using map_subscript_keys [of ps k] by (metis imageI insertE)
  from Cons show ?case
    by (auto simp: ordered_points_Cons dest!: keys)
qed

lemma ref_set_ordered: "ordered_points m \<Longrightarrow> ordered_points (ref_set m k v)"
proof (induction m)
  case Nil
  then show ?case by simp
next
  case (Cons p ps)
  have keys: "\<And>q. q \<in> set (ref_set ps k v) \<Longrightarrow> fst q \<in> fst ` set ps"
    using ref_set_keys [of ps k v] by (metis imageI)
  from Cons show ?case
    by (auto simp: ordered_points_Cons dest!: keys)
qed

lemma last_key_Max:
  "ordered_points m \<Longrightarrow> m \<noteq> [] \<Longrightarrow> fst (last m) = Max (fst ` set m)"
proof (induction m)
  case Nil
  then show ?case by simp
next
  case (Cons p ps)
  show ?case
  proof (cases "ps = []")
    case True
    then show ?thesis by simp
  next
    case False
    with Cons have ih: "fst (last ps) = Max (fst ` set ps)"
      by (simp add: ordered_points_Cons)
    have "fst p < fst (last ps)"
      using Cons.prems False by (simp add: ordered_points_Cons)
    with ih False show ?thesis
      by (simp add: max_def less_imp_le)
  qed
qed

lemma map_upper_bound_zero:
  "ordered_points m \<Longrightarrow> (map_upper_bound m bh = 0) = ({k \<in> fst ` set m. k \<le> bh} = {})"
  by (cases m) (auto simp: ordered_points_Cons)

lemma map_upper_bound_pred:
  "ordered_points m \<Longrightarrow> 0 < map_upper_bound m bh \<Longrightarrow>
     fst (m ! (map_upper_bound m bh - 1)) \<in> fst ` set m
     \<and> fst (m ! (map_upper_bound m bh - 1)) \<le> bh
     \<and> (\<forall>k \<in> fst ` set m. k \<le> bh \<longrightarrow> k \<le> fst (m ! (map_upper_bound m bh - 1)))"
proof (induction m)
  case Nil
  then show ?case by simp
next
  case (Cons p ps)
  from Cons.prems have le: "fst p \<le> bh"
    by (simp split: if_splits)
  have ord: "ordered_points ps" and lt: "\<forall>q \<in> set ps. fst p < fst q"
    using Cons.prems(1) by (simp_all add: ordered_points_Cons)
  show ?case
  proof (cases "map_upper_bound ps bh = 0")
    case True
    then have "\<forall>k \<in> fst ` set ps. \<not> k \<le> bh"
      using map_upper_bound_zero [OF ord, of bh] by auto
    with le True show ?thesis by auto
  next
    case False
    then have pos: "0 < map_upper_bound ps bh" by simp
    note ih = Cons.IH [OF ord pos]
    have idx: "(p # ps) ! (map_upper_bound (p # ps) bh - 1) = ps ! (map_upper_bound ps bh - 1)"
    proof -
      have "\<not> bh < fst p" using le by simp
      with pos show ?thesis by (simp add: nth_Cons')
    qed
    have "fst p \<le> fst (ps ! (map_upper_bound ps bh - 1))"
      using ih lt by (auto simp: less_imp_le)
    with ih idx show ?thesis by auto
  qed
qed

text \<open>
  The walk of \<open>max_element\<close> over the rest \<open>ps\<close> of the map \<open>m\<close>, from the position
  \<open>first\<close>, with the greatest key so far at position \<open>l\<close>.
\<close>

lemma max_element_loop_spec:
  "drop first m = ps \<Longrightarrow> l < first \<Longrightarrow> first \<le> length m \<Longrightarrow> fst (m ! l) = lk \<Longrightarrow>
     max_element_loop ps first lk l < length m
     \<and> fst (m ! max_element_loop ps first lk l) = Max (insert lk (fst ` set ps))"
proof (induction ps arbitrary: first lk l)
  case Nil
  then show ?case by simp
next
  case (Cons p ps)
  from Cons.prems(1) have lt: "first < length m"
    by (metis drop_all list.distinct(1) not_le)
  from Cons.prems(1) have p: "m ! first = p"
    by (metis lt hd_drop_conv_nth list.sel(1))
  from Cons.prems(1) have dr: "drop (Suc first) m = ps"
    by (metis drop_Suc list.sel(3) tl_drop)
  show ?case
  proof (cases "lk < fst p")
    case True
    have "max_element_loop ps (Suc first) (fst p) first < length m
       \<and> fst (m ! max_element_loop ps (Suc first) (fst p) first)
           = Max (insert (fst p) (fst ` set ps))"
      using Cons.IH [OF dr, of first "fst p"] lt p by simp
    moreover have "Max (insert lk (insert (fst p) (fst ` set ps)))
        = Max (insert (fst p) (fst ` set ps))"
    proof -
      have "fst p \<le> Max (insert (fst p) (fst ` set ps))" by simp
      with True have "lk \<le> Max (insert (fst p) (fst ` set ps))"
        by (meson less_imp_le order_trans)
      then show ?thesis
        using Max_insert [of "insert (fst p) (fst ` set ps)" lk] by (simp add: max_absorb2)
    qed
    ultimately show ?thesis using True by simp
  next
    case False
    have "max_element_loop ps (Suc first) lk l < length m
       \<and> fst (m ! max_element_loop ps (Suc first) lk l) = Max (insert lk (fst ` set ps))"
      using Cons.IH [OF dr, of l lk] lt Cons.prems by simp
    moreover have "Max (insert lk (insert (fst p) (fst ` set ps)))
        = Max (insert lk (fst ` set ps))"
    proof -
      have "lk \<le> Max (insert lk (fst ` set ps))" by simp
      with False have "fst p \<le> Max (insert lk (fst ` set ps))"
        by (meson not_less order_trans)
      then show ?thesis
        using Max_insert [of "insert lk (fst ` set ps)" "fst p"]
        by (simp add: max_absorb2 insert_commute)
    qed
    ultimately show ?thesis using False by simp
  qed
qed

lemma get_max_height_nonempty:
  "m \<noteq> [] \<Longrightarrow> get_max_height m = Inr (Max (fst ` set m))"
proof (cases m)
  case Nil
  assume "m \<noteq> []"
  with Nil show ?thesis by simp
next
  case (Cons p ps)
  have "max_element_loop ps (Suc 0) (fst p) 0 < length m
      \<and> fst (m ! max_element_loop ps (Suc 0) (fst p) 0) = Max (insert (fst p) (fst ` set ps))"
    by (rule max_element_loop_spec) (simp_all add: Cons)
  then show ?thesis
    by (simp add: get_max_height_def max_element_def map_begin_def map_end_def Let_def Cons)
qed

section \<open>Facts about the codec and the insertion\<close>

lemma hex_bytes_length: "hex_bytes s = Some bs \<Longrightarrow> length s = 2 * length bs"
  by (induction s arbitrary: bs rule: hex_bytes.induct) (auto split: option.splits)

lemma hex_bytes_None_iff:
  "(hex_bytes s = None) = (odd (length s) \<or> (\<exists>c \<in> set s. hex_digit c = None))"
  by (induction s rule: hex_bytes.induct) (auto split: option.splits)

lemma hex_to_pod_None_iff:
  "(hex_to_pod s = None) = (length s \<noteq> 64 \<or> (\<exists>c \<in> set s. hex_digit c = None))"
  by (auto simp: hex_to_pod_def hex_bytes_None_iff)

lemma hex_to_pod_length: "hex_to_pod s = Some h \<Longrightarrow> length h = 32"
  by (auto simp: hex_to_pod_def dest: hex_bytes_length split: if_splits)

lemma add_checkpoint_ordered:
  "ordered_points m \<Longrightarrow> ordered_points (snd (add_checkpoint ht hash_str m))"
  by (auto simp: add_checkpoint_def Let_def map_subscript_ordered ref_set_ordered
      split: option.splits)

lemma add_checkpoint_Ok_shape:
  "add_checkpoint ht hash_str m = (Ok, m') \<Longrightarrow>
     \<exists>m1 h. m' = ref_set (map_subscript m1 ht) ht h \<and> (m1 = m \<or> m1 = map_subscript m ht)"
  by (auto simp: add_checkpoint_def Let_def split: option.splits if_splits)

lemma add_checkpoint_Ok_keys:
  "add_checkpoint ht hash_str m = (Ok, m') \<Longrightarrow> fst ` set m' = insert ht (fst ` set m)"
  by (drule add_checkpoint_Ok_shape)
    (elim exE conjE disjE; simp add: map_subscript_keys ref_set_keys)

lemma add_checkpoints_ordered:
  "ordered_points m \<Longrightarrow> ordered_points (snd (add_checkpoints cs m))"
proof (induction cs arbitrary: m)
  case Nil
  then show ?case by simp
next
  case (Cons c cs)
  have o: "ordered_points (snd (add_checkpoint (fst c) (snd c) m))"
    using Cons.prems by (rule add_checkpoint_ordered)
  show ?case
  proof (cases "add_checkpoint (fst c) (snd c) m")
    case (Pair st m1)
    with o have o1: "ordered_points m1" by simp
    show ?thesis
    proof (cases st)
      case Ok
      with Pair Cons.IH [OF o1] show ?thesis by simp
    next
      case (Failed e)
      with Pair o1 show ?thesis by simp
    qed
  qed
qed

lemma load_hashlines_filter:
  "load_hashlines pm ls m =
     add_checkpoints (map (\<lambda>l. (height l, hash l)) (filter (\<lambda>l. pm < height l) ls)) m"
proof (induction ls arbitrary: m)
  case Nil
  show ?case by simp
next
  case (Cons l ls)
  show ?case
  proof (cases "height l \<le> pm")
    case True
    then have "\<not> pm < height l" by simp
    with True Cons show ?thesis by simp
  next
    case False
    then have "pm < height l" by simp
    with False Cons show ?thesis
      by (simp split: prod.splits status.splits)
  qed
qed

lemma load_hashlines_ordered:
  "ordered_points m \<Longrightarrow> ordered_points (snd (load_hashlines pm ls m))"
  by (simp add: load_hashlines_filter add_checkpoints_ordered)

lemma load_checkpoints_from_json_ordered:
  assumes "ordered_points m" and "load_checkpoints_from_json fs path m = Inr (st, m')"
  shows "ordered_points m'"
proof (cases "fs path")
  case None
  with assms show ?thesis
    by (simp add: load_checkpoints_from_json_def)
next
  case (Some f)
  show ?thesis
  proof (cases f)
    case Malformed
    with Some assms show ?thesis
      by (auto simp: load_checkpoints_from_json_def split: sum.splits)
  next
    case (Document d)
    from Some Document assms(2) obtain pm
      where "load_hashlines pm (hashlines d) m = (st, m')"
      by (auto simp: load_checkpoints_from_json_def split: sum.splits)
    with load_hashlines_ordered [OF assms(1), of pm "hashlines d"] show ?thesis
      by simp
  qed
qed

lemma init_default_checkpoints_ordered:
  "ordered_points m \<Longrightarrow> ordered_points (snd (init_default_checkpoints hooks nettype m))"
  by (cases nettype) (simp_all add: init_default_checkpoints_def add_checkpoints_ordered)

lemma check_for_conflicts_loop_spec:
  "check_for_conflicts_loop m other pts =
     (Inr (if \<exists>pt \<in> set pts. \<exists>v. map_of m (fst pt) = Some v \<and> snd pt \<noteq> v
           then Failed ConflictError else Ok), m, other)"
proof (induction pts)
  case Nil
  then show ?case by simp
next
  case (Cons pt pts)
  show ?case
  proof (cases "map_of m (fst pt)")
    case None
    with Cons map_count_iff [of m "fst pt"] show ?thesis by simp
  next
    case (Some v)
    with Cons map_count_iff [of m "fst pt"] map_at_present [OF Some] show ?thesis by auto
  qed
qed

lemma init_default_checkpoints_no_table:
  "nettype \<noteq> MAINNET \<Longrightarrow> init_default_checkpoints hooks nettype m = (Ok, m)"
  by (cases nettype) (simp_all add: init_default_checkpoints_def)

section \<open>The maximum height\<close>

text \<open>
  Claim C1. \<open>get_max_height\<close> would return the greatest height of the Store, or say
  that the Store is empty. On the empty map \<^verbatim>\<open>std::max_element\<close> returns
  \<^verbatim>\<open>end()\<close>, and the method reads \<^verbatim>\<open>highest->first\<close> through it: there is no test of
  emptiness, unlike in \<open>is_in_checkpoint_zone\<close>. On a Store with entries the result is
  the greatest key (lemma \<open>get_max_height_nonempty\<close>).
\<close>

theorem get_max_height_empty_store:
  "get_max_height [] = Inl EndDereferenced"
  by (simp add: get_max_height_def max_element_def map_end_def)

section \<open>Checking a block against the pins\<close>

text \<open>
  Claim C3. \<open>check_block\<close> at a height without entry reports no checkpoint and
  accepts; at a height whose entry is the given hash it reports a checkpoint and
  accepts; at a height whose entry is another hash it reports a checkpoint and rejects.
  The first component of the result is the returned flag, the second is
  \<^verbatim>\<open>is_a_checkpoint\<close>.
\<close>

theorem check_block_rule:
  "check_block m_points ht h =
     (case map_of m_points ht of
        None \<Rightarrow> (True, False)
      | Some h' \<Rightarrow> (h' = h, True))"
  by (auto simp: check_block_def map_end_def Let_def map_find_end_iff map_find_nth
      split: option.splits)

theorem check_block_rule_witness:
  "check_block [(100, replicate 32 1)] 100 (replicate 32 1) = (True, True)
   \<and> check_block [(100, replicate 32 1)] 100 (replicate 32 2) = (False, True)
   \<and> check_block [(100, replicate 32 1)] 101 (replicate 32 2) = (True, False)"
  using check_block_rule [of "[(100, replicate 32 1)]" 100 "replicate 32 1"]
    check_block_rule [of "[(100, replicate 32 1)]" 100 "replicate 32 2"]
    check_block_rule [of "[(100, replicate 32 1)]" 101 "replicate 32 2"]
  by simp

section \<open>Adding a checkpoint\<close>

text \<open>
  Claim C7. When the text of the hash does not decode to 32 bytes,
  \<open>add_checkpoint\<close> fails on the parse check and the Store is as it was, at every
  height. By \<open>hex_to_pod_None_iff\<close> the texts that do not decode are those of a length
  other than 64 and those with a character that is no hexadecimal digit.
\<close>

theorem add_checkpoint_parse_error:
  "hex_to_pod hash_str = None \<Longrightarrow>
     add_checkpoint ht hash_str m_points = (Failed ParseError, m_points)"
  by (simp add: add_checkpoint_def)

theorem add_checkpoint_parse_error_witness:
  "hex_to_pod ''zz'' = None
   \<and> add_checkpoint 7 ''zz'' [(5, null_hash)] = (Failed ParseError, [(5, null_hash)])"
  using add_checkpoint_parse_error [of "''zz''" 7 "[(5, null_hash)]"]
  by (simp add: hex_to_pod_def)

text \<open>
  Claim C4. At a height that the Store already maps to \<open>hash1\<close>, \<open>add_checkpoint\<close>
  succeeds exactly when the text decodes to \<open>hash1\<close>, and whether it succeeds or fails
  the Store after the call is the Store before it.
\<close>

theorem add_checkpoint_existing_height:
  assumes "ordered_points m_points" and "map_of m_points ht = Some hash1"
  shows "(fst (add_checkpoint ht hash_str m_points) = Ok) = (hex_to_pod hash_str = Some hash1)
       \<and> snd (add_checkpoint ht hash_str m_points) = m_points"
proof (cases "hex_to_pod hash_str")
  case None
  then show ?thesis by (simp add: add_checkpoint_def)
next
  case (Some h)
  have sub: "map_subscript m_points ht = m_points"
    using assms by (rule map_subscript_present)
  have cnt: "map_count m_points ht \<noteq> 0"
    using assms(2) map_count_iff [of m_points ht] by simp
  show ?thesis
  proof (cases "h = hash1")
    case True
    with Some sub cnt assms(2) show ?thesis
      by (simp add: add_checkpoint_def Let_def ref_get_present ref_set_same)
  next
    case False
    with Some sub cnt assms(2) show ?thesis
      by (simp add: add_checkpoint_def Let_def ref_get_present)
  qed
qed

theorem add_checkpoint_existing_height_witness:
  "ordered_points [(100, [193, 6, 235, 173, 100, 110, 45, 192, 249, 171, 150, 116, 27, 44, 50, 13, 52, 53, 180, 61, 111, 111, 150, 96, 177, 243, 24, 243, 58, 118, 74, 210])]
   \<and> map_of [(100 :: height, [193, 6, 235, 173, 100, 110, 45, 192, 249, 171, 150, 116, 27, 44, 50, 13, 52, 53, 180, 61, 111, 111, 150, 96, 177, 243, 24, 243, 58, 118, 74, 210])] 100 = Some [193, 6, 235, 173, 100, 110, 45, 192, 249, 171, 150, 116, 27, 44, 50, 13, 52, 53, 180, 61, 111, 111, 150, 96, 177, 243, 24, 243, 58, 118, 74, 210]
   \<and> add_checkpoint 100 ''c106ebad646e2dc0f9ab96741b2c320d3435b43d6f6f9660b1f318f33a764ad2'' [(100, [193, 6, 235, 173, 100, 110, 45, 192, 249, 171, 150, 116, 27, 44, 50, 13, 52, 53, 180, 61, 111, 111, 150, 96, 177, 243, 24, 243, 58, 118, 74, 210])] = (Ok, [(100, [193, 6, 235, 173, 100, 110, 45, 192, 249, 171, 150, 116, 27, 44, 50, 13, 52, 53, 180, 61, 111, 111, 150, 96, 177, 243, 24, 243, 58, 118, 74, 210])])
   \<and> fst (add_checkpoint 100 ''40bccdd5ce631f0cc959bb8bf7d3af00c6bae7d93c1a2a9cdcf0d73fb771b8a0'' [(100, [193, 6, 235, 173, 100, 110, 45, 192, 249, 171, 150, 116, 27, 44, 50, 13, 52, 53, 180, 61, 111, 111, 150, 96, 177, 243, 24, 243, 58, 118, 74, 210])]) \<noteq> Ok
   \<and> snd (add_checkpoint 100 ''40bccdd5ce631f0cc959bb8bf7d3af00c6bae7d93c1a2a9cdcf0d73fb771b8a0'' [(100, [193, 6, 235, 173, 100, 110, 45, 192, 249, 171, 150, 116, 27, 44, 50, 13, 52, 53, 180, 61, 111, 111, 150, 96, 177, 243, 24, 243, 58, 118, 74, 210])]) = [(100, [193, 6, 235, 173, 100, 110, 45, 192, 249, 171, 150, 116, 27, 44, 50, 13, 52, 53, 180, 61, 111, 111, 150, 96, 177, 243, 24, 243, 58, 118, 74, 210])]
   \<and> fst (add_checkpoint 100 ''zz'' [(100, [193, 6, 235, 173, 100, 110, 45, 192, 249, 171, 150, 116, 27, 44, 50, 13, 52, 53, 180, 61, 111, 111, 150, 96, 177, 243, 24, 243, 58, 118, 74, 210])]) \<noteq> Ok
   \<and> snd (add_checkpoint 100 ''zz'' [(100, [193, 6, 235, 173, 100, 110, 45, 192, 249, 171, 150, 116, 27, 44, 50, 13, 52, 53, 180, 61, 111, 111, 150, 96, 177, 243, 24, 243, 58, 118, 74, 210])]) = [(100, [193, 6, 235, 173, 100, 110, 45, 192, 249, 171, 150, 116, 27, 44, 50, 13, 52, 53, 180, 61, 111, 111, 150, 96, 177, 243, 24, 243, 58, 118, 74, 210])]"
proof -
  have o: "ordered_points [(100, [193, 6, 235, 173, 100, 110, 45, 192, 249, 171, 150, 116, 27, 44, 50, 13, 52, 53, 180, 61, 111, 111, 150, 96, 177, 243, 24, 243, 58, 118, 74, 210])]"
    by (simp add: ordered_points_def)
  have p: "map_of [(100 :: height, [193, 6, 235, 173, 100, 110, 45, 192, 249, 171, 150, 116, 27, 44, 50, 13, 52, 53, 180, 61, 111, 111, 150, 96, 177, 243, 24, 243, 58, 118, 74, 210])] 100 = Some [193, 6, 235, 173, 100, 110, 45, 192, 249, 171, 150, 116, 27, 44, 50, 13, 52, 53, 180, 61, 111, 111, 150, 96, 177, 243, 24, 243, 58, 118, 74, 210]"
    by simp
  have d1: "hex_to_pod ''c106ebad646e2dc0f9ab96741b2c320d3435b43d6f6f9660b1f318f33a764ad2'' = Some [193, 6, 235, 173, 100, 110, 45, 192, 249, 171, 150, 116, 27, 44, 50, 13, 52, 53, 180, 61, 111, 111, 150, 96, 177, 243, 24, 243, 58, 118, 74, 210]"
    by (simp add: hex_to_pod_def hex_digit_def)
  have d2: "hex_to_pod ''40bccdd5ce631f0cc959bb8bf7d3af00c6bae7d93c1a2a9cdcf0d73fb771b8a0'' \<noteq> Some [193, 6, 235, 173, 100, 110, 45, 192, 249, 171, 150, 116, 27, 44, 50, 13, 52, 53, 180, 61, 111, 111, 150, 96, 177, 243, 24, 243, 58, 118, 74, 210]"
    by (simp add: hex_to_pod_def hex_digit_def)
  have d3: "hex_to_pod ''zz'' \<noteq> Some [193, 6, 235, 173, 100, 110, 45, 192, 249, 171, 150, 116, 27, 44, 50, 13, 52, 53, 180, 61, 111, 111, 150, 96, 177, 243, 24, 243, 58, 118, 74, 210]"
    by (simp add: hex_to_pod_def)
  from add_checkpoint_existing_height [OF o p, of "''c106ebad646e2dc0f9ab96741b2c320d3435b43d6f6f9660b1f318f33a764ad2''"]
    add_checkpoint_existing_height [OF o p, of "''40bccdd5ce631f0cc959bb8bf7d3af00c6bae7d93c1a2a9cdcf0d73fb771b8a0''"]
    add_checkpoint_existing_height [OF o p, of "''zz''"]
    d1 d2 d3 o p
  show ?thesis
    by (metis prod.collapse)
qed

section \<open>Loading the document\<close>

text \<open>
  Claim C8. When there is no document at the path, \<open>load_checkpoints_from_json\<close>
  returns success and the Store is unchanged, whatever the Store.
\<close>

theorem load_checkpoints_from_json_absent:
  "fs json_hashfile_fullpath = None \<Longrightarrow>
     load_checkpoints_from_json fs json_hashfile_fullpath m_points = Inr (Ok, m_points)"
  by (simp add: load_checkpoints_from_json_def)

theorem load_checkpoints_from_json_absent_witness:
  "Map.empty ''checkpoints.json'' = (None :: hashfile option)
   \<and> load_checkpoints_from_json Map.empty ''checkpoints.json'' [(5, null_hash)]
       = Inr (Ok, [(5, null_hash)])
   \<and> load_checkpoints_from_json Map.empty ''checkpoints.json'' [] = Inr (Ok, [])"
  using load_checkpoints_from_json_absent [of Map.empty "''checkpoints.json''" "[(5, null_hash)]"]
    load_checkpoints_from_json_absent [of Map.empty "''checkpoints.json''" "[]"]
  by simp

section \<open>The checkpoint zone\<close>

text \<open>
  Claim C6, as stated, has \<open>is_in_checkpoint_zone\<close> false at \<open>H + 1\<close> after adding a
  height \<open>H\<close> that is the maximum. Heights are 64-bit: after adding \<open>2^64 - 1\<close> to the
  empty Store, \<open>H + 1\<close> is \<open>0\<close>, which is in the zone.
\<close>

theorem is_in_checkpoint_zone_wrap_counterexample:
  "add_checkpoint 18446744073709551615 ''c106ebad646e2dc0f9ab96741b2c320d3435b43d6f6f9660b1f318f33a764ad2'' [] = (Ok, [(18446744073709551615, [193, 6, 235, 173, 100, 110, 45, 192, 249, 171, 150, 116, 27, 44, 50, 13, 52, 53, 180, 61, 111, 111, 150, 96, 177, 243, 24, 243, 58, 118, 74, 210])])
   \<and> Max (fst ` set [(18446744073709551615 :: height, [193, 6, 235, 173, 100, 110, 45, 192, 249, 171, 150, 116, 27, 44, 50, 13, 52, 53, 180, 61, 111, 111, 150, 96, 177, 243, 24, 243, 58, 118, 74, 210])]) = 18446744073709551615
   \<and> is_in_checkpoint_zone [(18446744073709551615, [193, 6, 235, 173, 100, 110, 45, 192, 249, 171, 150, 116, 27, 44, 50, 13, 52, 53, 180, 61, 111, 111, 150, 96, 177, 243, 24, 243, 58, 118, 74, 210])] (18446744073709551615 + 1)"
  by (simp add: add_checkpoint_def hex_to_pod_def hex_digit_def map_count_def map_end_def
      map_empty_def is_in_checkpoint_zone_def)

text \<open>
  Claim C6, amended. \<open>is_in_checkpoint_zone\<close> is true exactly when the Store is not
  empty and the height is at most the greatest checkpoint height; so on the empty Store
  it is false at every height, and after adding a height \<open>H\<close> it is true at \<open>H\<close>,
  whether or not \<open>H\<close> is the maximum, and, when \<open>H\<close> is the maximum and \<open>H + 1\<close> does
  not wrap around to \<open>0\<close>, false at \<open>H + 1\<close>.
\<close>

theorem is_in_checkpoint_zone_boundary:
  assumes "ordered_points m_points"
  shows "is_in_checkpoint_zone m_points ht
           = (m_points \<noteq> [] \<and> ht \<le> Max (fst ` set m_points))
     \<and> \<not> is_in_checkpoint_zone [] ht
     \<and> (add_checkpoint H hash_str m_points = (Ok, m') \<longrightarrow>
          is_in_checkpoint_zone m' H
          \<and> (Max (fst ` set m') = H \<and> H + 1 \<noteq> 0 \<longrightarrow>
               \<not> is_in_checkpoint_zone m' (H + 1)))"
proof -
  have zone: "is_in_checkpoint_zone m ht' = (m \<noteq> [] \<and> ht' \<le> Max (fst ` set m))"
    if "ordered_points m" for m ht'
    using that last_key_Max [of m]
    by (auto simp: is_in_checkpoint_zone_def map_empty_def map_end_def last_conv_nth)
  show ?thesis
  proof (intro conjI impI)
    show "is_in_checkpoint_zone m_points ht
        = (m_points \<noteq> [] \<and> ht \<le> Max (fst ` set m_points))"
      using assms by (rule zone)
  next
    show "\<not> is_in_checkpoint_zone [] ht"
      by (simp add: is_in_checkpoint_zone_def map_empty_def)
  next
    assume a: "add_checkpoint H hash_str m_points = (Ok, m')"
    then have o: "ordered_points m'"
      using add_checkpoint_ordered [OF assms, of H hash_str] by simp
    have keys: "fst ` set m' = insert H (fst ` set m_points)"
      using a by (rule add_checkpoint_Ok_keys)
    then have mem: "H \<in> fst ` set m'"
      by simp
    then have ne: "m' \<noteq> []"
      by auto
    have "finite (fst ` set m')"
      by simp
    then have "H \<le> Max (fst ` set m')"
      using mem by (rule Max_ge)
    with ne show "is_in_checkpoint_zone m' H"
      by (simp add: zone [OF o])
  next
    assume a: "add_checkpoint H hash_str m_points = (Ok, m')"
      and b: "Max (fst ` set m') = H \<and> H + 1 \<noteq> 0"
    from a have o: "ordered_points m'"
      using add_checkpoint_ordered [OF assms, of H hash_str] by simp
    have "H \<noteq> - 1"
      using b by auto
    then have "\<not> H + 1 \<le> H"
      by (simp add: inc_less_eq_self_iff_eq)
    with b show "\<not> is_in_checkpoint_zone m' (H + 1)"
      by (simp add: zone [OF o])
  qed
qed

theorem is_in_checkpoint_zone_boundary_witness:
  "ordered_points [(5, null_hash)]
   \<and> add_checkpoint 100 ''c106ebad646e2dc0f9ab96741b2c320d3435b43d6f6f9660b1f318f33a764ad2'' [(5, null_hash)] = (Ok, [(5, null_hash), (100, [193, 6, 235, 173, 100, 110, 45, 192, 249, 171, 150, 116, 27, 44, 50, 13, 52, 53, 180, 61, 111, 111, 150, 96, 177, 243, 24, 243, 58, 118, 74, 210])])
   \<and> Max (fst ` set [(5 :: height, null_hash), (100, [193, 6, 235, 173, 100, 110, 45, 192, 249, 171, 150, 116, 27, 44, 50, 13, 52, 53, 180, 61, 111, 111, 150, 96, 177, 243, 24, 243, 58, 118, 74, 210])]) = 100
   \<and> (100 :: height) + 1 \<noteq> 0
   \<and> is_in_checkpoint_zone [(5, null_hash), (100, [193, 6, 235, 173, 100, 110, 45, 192, 249, 171, 150, 116, 27, 44, 50, 13, 52, 53, 180, 61, 111, 111, 150, 96, 177, 243, 24, 243, 58, 118, 74, 210])] 100
   \<and> \<not> is_in_checkpoint_zone [(5, null_hash), (100, [193, 6, 235, 173, 100, 110, 45, 192, 249, 171, 150, 116, 27, 44, 50, 13, 52, 53, 180, 61, 111, 111, 150, 96, 177, 243, 24, 243, 58, 118, 74, 210])] (100 + 1)
   \<and> add_checkpoint 3 ''c106ebad646e2dc0f9ab96741b2c320d3435b43d6f6f9660b1f318f33a764ad2'' [(5, null_hash)] = (Ok, [(3, [193, 6, 235, 173, 100, 110, 45, 192, 249, 171, 150, 116, 27, 44, 50, 13, 52, 53, 180, 61, 111, 111, 150, 96, 177, 243, 24, 243, 58, 118, 74, 210]), (5, null_hash)])
   \<and> is_in_checkpoint_zone [(3, [193, 6, 235, 173, 100, 110, 45, 192, 249, 171, 150, 116, 27, 44, 50, 13, 52, 53, 180, 61, 111, 111, 150, 96, 177, 243, 24, 243, 58, 118, 74, 210]), (5, null_hash)] 3
   \<and> is_in_checkpoint_zone [(5, null_hash)] 3
   \<and> \<not> is_in_checkpoint_zone [] 0"
proof -
  have o: "ordered_points [(5, null_hash)]"
    by (simp add: ordered_points_def)
  have a: "add_checkpoint 100 ''c106ebad646e2dc0f9ab96741b2c320d3435b43d6f6f9660b1f318f33a764ad2'' [(5, null_hash)] = (Ok, [(5, null_hash), (100, [193, 6, 235, 173, 100, 110, 45, 192, 249, 171, 150, 116, 27, 44, 50, 13, 52, 53, 180, 61, 111, 111, 150, 96, 177, 243, 24, 243, 58, 118, 74, 210])])"
    by (simp add: add_checkpoint_def hex_to_pod_def hex_digit_def map_count_def map_end_def)
  have a3: "add_checkpoint 3 ''c106ebad646e2dc0f9ab96741b2c320d3435b43d6f6f9660b1f318f33a764ad2'' [(5, null_hash)] = (Ok, [(3, [193, 6, 235, 173, 100, 110, 45, 192, 249, 171, 150, 116, 27, 44, 50, 13, 52, 53, 180, 61, 111, 111, 150, 96, 177, 243, 24, 243, 58, 118, 74, 210]), (5, null_hash)])"
    by (simp add: add_checkpoint_def hex_to_pod_def hex_digit_def map_count_def map_end_def)
  have mx: "Max (fst ` set [(5 :: height, null_hash), (100, [193, 6, 235, 173, 100, 110, 45, 192, 249, 171, 150, 116, 27, 44, 50, 13, 52, 53, 180, 61, 111, 111, 150, 96, 177, 243, 24, 243, 58, 118, 74, 210])]) = 100"
    by simp
  have mx5: "(3 :: height) \<le> Max (fst ` set [(5 :: height, null_hash)])"
    by simp
  have nz: "(100 :: height) + 1 \<noteq> 0"
    by simp
  from is_in_checkpoint_zone_boundary [OF o, of 3 100 "''c106ebad646e2dc0f9ab96741b2c320d3435b43d6f6f9660b1f318f33a764ad2''" "[(5, null_hash), (100, [193, 6, 235, 173, 100, 110, 45, 192, 249, 171, 150, 116, 27, 44, 50, 13, 52, 53, 180, 61, 111, 111, 150, 96, 177, 243, 24, 243, 58, 118, 74, 210])]"]
    is_in_checkpoint_zone_boundary [OF o, of 0 3 "''c106ebad646e2dc0f9ab96741b2c320d3435b43d6f6f9660b1f318f33a764ad2''" "[(3, [193, 6, 235, 173, 100, 110, 45, 192, 249, 171, 150, 116, 27, 44, 50, 13, 52, 53, 180, 61, 111, 111, 150, 96, 177, 243, 24, 243, 58, 118, 74, 210]), (5, null_hash)]"]
    a a3 mx mx5 nz o
  show ?thesis
    by blast
qed

section \<open>Alternative blocks\<close>

text \<open>
  Claim C2. \<open>is_alternative_block_allowed\<close> is false when the candidate height is
  \<open>0\<close>; otherwise it is true when no checkpoint lies at or below the current best
  height, and else, with \<open>P\<close> the greatest checkpoint height at or below the current
  best height, it is true exactly when the candidate height is above \<open>P\<close>.
\<close>

theorem is_alternative_block_allowed_rule:
  assumes "ordered_points m_points"
  shows "is_alternative_block_allowed m_points blockchain_height block_height =
     (block_height \<noteq> 0
      \<and> ({k \<in> fst ` set m_points. k \<le> blockchain_height} = {}
         \<or> Max {k \<in> fst ` set m_points. k \<le> blockchain_height} < block_height))"
proof (cases "map_upper_bound m_points blockchain_height = 0")
  case True
  with map_upper_bound_zero [OF assms, of blockchain_height] show ?thesis
    by (auto simp: is_alternative_block_allowed_def map_begin_def)
next
  case False
  then have pos: "0 < map_upper_bound m_points blockchain_height" by simp
  let ?P = "fst (m_points ! (map_upper_bound m_points blockchain_height - 1))"
  let ?S = "{k \<in> fst ` set m_points. k \<le> blockchain_height}"
  note pr = map_upper_bound_pred [OF assms pos]
  have fin: "finite ?S" by simp
  have mem: "?P \<in> ?S" using pr by simp
  have "Max ?S = ?P"
  proof (rule Max_eqI [OF fin])
    show "?P \<in> ?S" by (rule mem)
  next
    fix y assume "y \<in> ?S"
    with pr show "y \<le> ?P" by auto
  qed
  moreover have "?S \<noteq> {}" using mem by blast
  ultimately show ?thesis
    using False by (auto simp: is_alternative_block_allowed_def map_begin_def Let_def)
qed

theorem is_alternative_block_allowed_rule_witness:
  "ordered_points [(100, [193, 6, 235, 173, 100, 110, 45, 192, 249, 171, 150, 116, 27, 44, 50, 13, 52, 53, 180, 61, 111, 111, 150, 96, 177, 243, 24, 243, 58, 118, 74, 210])]
   \<and> \<not> is_alternative_block_allowed [(100, [193, 6, 235, 173, 100, 110, 45, 192, 249, 171, 150, 116, 27, 44, 50, 13, 52, 53, 180, 61, 111, 111, 150, 96, 177, 243, 24, 243, 58, 118, 74, 210])] 150 100
   \<and> is_alternative_block_allowed [(100, [193, 6, 235, 173, 100, 110, 45, 192, 249, 171, 150, 116, 27, 44, 50, 13, 52, 53, 180, 61, 111, 111, 150, 96, 177, 243, 24, 243, 58, 118, 74, 210])] 150 101
   \<and> is_alternative_block_allowed [(100, [193, 6, 235, 173, 100, 110, 45, 192, 249, 171, 150, 116, 27, 44, 50, 13, 52, 53, 180, 61, 111, 111, 150, 96, 177, 243, 24, 243, 58, 118, 74, 210])] 50 30
   \<and> \<not> is_alternative_block_allowed [(100, [193, 6, 235, 173, 100, 110, 45, 192, 249, 171, 150, 116, 27, 44, 50, 13, 52, 53, 180, 61, 111, 111, 150, 96, 177, 243, 24, 243, 58, 118, 74, 210])] 50 0"
proof -
  have o: "ordered_points [(100, [193, 6, 235, 173, 100, 110, 45, 192, 249, 171, 150, 116, 27, 44, 50, 13, 52, 53, 180, 61, 111, 111, 150, 96, 177, 243, 24, 243, 58, 118, 74, 210])]"
    by (simp add: ordered_points_def)
  have s1: "{k \<in> fst ` set [(100 :: height, [193, 6, 235, 173, 100, 110, 45, 192, 249, 171, 150, 116, 27, 44, 50, 13, 52, 53, 180, 61, 111, 111, 150, 96, 177, 243, 24, 243, 58, 118, 74, 210])]. k \<le> 150} = {100}"
    by auto
  have s2: "{k \<in> fst ` set [(100 :: height, [193, 6, 235, 173, 100, 110, 45, 192, 249, 171, 150, 116, 27, 44, 50, 13, 52, 53, 180, 61, 111, 111, 150, 96, 177, 243, 24, 243, 58, 118, 74, 210])]. k \<le> 50} = {}"
    by auto
  show ?thesis
    using o is_alternative_block_allowed_rule [OF o, of 150 100]
      is_alternative_block_allowed_rule [OF o, of 150 101]
      is_alternative_block_allowed_rule [OF o, of 50 30]
      is_alternative_block_allowed_rule [OF o, of 50 0]
    by (simp add: s1 s2)
qed

section \<open>Conflicts between two registries\<close>

text \<open>
  Claim C9. \<open>check_for_conflicts\<close> fails exactly when some height present in both
  Stores is mapped to different hashes by the two, succeeds otherwise, and in every case
  the two Stores are as they were. The exception of \<^verbatim>\<open>at\<close> is never raised.
\<close>

theorem check_for_conflicts_rule:
  assumes "ordered_points other"
  shows "check_for_conflicts m_points other =
     (Inr (if \<exists>k v w. map_of m_points k = Some v \<and> map_of other k = Some w \<and> v \<noteq> w
           then Failed ConflictError else Ok), m_points, other)"
proof -
  have d: "distinct (map fst other)"
    using assms by (rule ordered_points_distinct)
  have "(\<exists>pt \<in> set other. \<exists>v. map_of m_points (fst pt) = Some v \<and> snd pt \<noteq> v)
      = (\<exists>k v w. map_of m_points k = Some v \<and> map_of other k = Some w \<and> v \<noteq> w)"
  proof
    assume "\<exists>pt \<in> set other. \<exists>v. map_of m_points (fst pt) = Some v \<and> snd pt \<noteq> v"
    then obtain pt v
      where pt: "pt \<in> set other" "map_of m_points (fst pt) = Some v" "snd pt \<noteq> v"
      by blast
    from pt(1) have "(fst pt, snd pt) \<in> set other" by simp
    with d have "map_of other (fst pt) = Some (snd pt)"
      by (rule map_of_is_SomeI)
    with pt(2,3) have "map_of m_points (fst pt) = Some v
        \<and> map_of other (fst pt) = Some (snd pt) \<and> v \<noteq> snd pt"
      by blast
    then show "\<exists>k v w. map_of m_points k = Some v \<and> map_of other k = Some w \<and> v \<noteq> w"
      by blast
  next
    assume "\<exists>k v w. map_of m_points k = Some v \<and> map_of other k = Some w \<and> v \<noteq> w"
    then obtain k v w
      where kvw: "map_of m_points k = Some v" "map_of other k = Some w" "v \<noteq> w"
      by blast
    from kvw(2) have "(k, w) \<in> set other"
      by (rule map_of_SomeD)
    moreover from kvw(1,3)
    have "\<exists>v. map_of m_points (fst (k, w)) = Some v \<and> snd (k, w) \<noteq> v"
      by auto
    ultimately
    show "\<exists>pt \<in> set other. \<exists>v. map_of m_points (fst pt) = Some v \<and> snd pt \<noteq> v"
      by (rule bexI [rotated])
  qed
  then show ?thesis
    by (simp only: check_for_conflicts_def get_points_def check_for_conflicts_loop_spec)
qed

theorem check_for_conflicts_rule_witness:
  "ordered_points [(100, [64, 188, 205, 213, 206, 99, 31, 12, 201, 89, 187, 139, 247, 211, 175, 0, 198, 186, 231, 217, 60, 26, 42, 156, 220, 240, 215, 63, 183, 113, 184, 160]), (200, [193, 6, 235, 173, 100, 110, 45, 192, 249, 171, 150, 116, 27, 44, 50, 13, 52, 53, 180, 61, 111, 111, 150, 96, 177, 243, 24, 243, 58, 118, 74, 210])]
   \<and> check_for_conflicts [(100, [193, 6, 235, 173, 100, 110, 45, 192, 249, 171, 150, 116, 27, 44, 50, 13, 52, 53, 180, 61, 111, 111, 150, 96, 177, 243, 24, 243, 58, 118, 74, 210])] [(100, [64, 188, 205, 213, 206, 99, 31, 12, 201, 89, 187, 139, 247, 211, 175, 0, 198, 186, 231, 217, 60, 26, 42, 156, 220, 240, 215, 63, 183, 113, 184, 160]), (200, [193, 6, 235, 173, 100, 110, 45, 192, 249, 171, 150, 116, 27, 44, 50, 13, 52, 53, 180, 61, 111, 111, 150, 96, 177, 243, 24, 243, 58, 118, 74, 210])]
       = (Inr (Failed ConflictError), [(100, [193, 6, 235, 173, 100, 110, 45, 192, 249, 171, 150, 116, 27, 44, 50, 13, 52, 53, 180, 61, 111, 111, 150, 96, 177, 243, 24, 243, 58, 118, 74, 210])], [(100, [64, 188, 205, 213, 206, 99, 31, 12, 201, 89, 187, 139, 247, 211, 175, 0, 198, 186, 231, 217, 60, 26, 42, 156, 220, 240, 215, 63, 183, 113, 184, 160]), (200, [193, 6, 235, 173, 100, 110, 45, 192, 249, 171, 150, 116, 27, 44, 50, 13, 52, 53, 180, 61, 111, 111, 150, 96, 177, 243, 24, 243, 58, 118, 74, 210])])
   \<and> check_for_conflicts [(100, [64, 188, 205, 213, 206, 99, 31, 12, 201, 89, 187, 139, 247, 211, 175, 0, 198, 186, 231, 217, 60, 26, 42, 156, 220, 240, 215, 63, 183, 113, 184, 160]), (300, [64, 188, 205, 213, 206, 99, 31, 12, 201, 89, 187, 139, 247, 211, 175, 0, 198, 186, 231, 217, 60, 26, 42, 156, 220, 240, 215, 63, 183, 113, 184, 160])] [(100, [64, 188, 205, 213, 206, 99, 31, 12, 201, 89, 187, 139, 247, 211, 175, 0, 198, 186, 231, 217, 60, 26, 42, 156, 220, 240, 215, 63, 183, 113, 184, 160]), (200, [193, 6, 235, 173, 100, 110, 45, 192, 249, 171, 150, 116, 27, 44, 50, 13, 52, 53, 180, 61, 111, 111, 150, 96, 177, 243, 24, 243, 58, 118, 74, 210])]
       = (Inr Ok, [(100, [64, 188, 205, 213, 206, 99, 31, 12, 201, 89, 187, 139, 247, 211, 175, 0, 198, 186, 231, 217, 60, 26, 42, 156, 220, 240, 215, 63, 183, 113, 184, 160]), (300, [64, 188, 205, 213, 206, 99, 31, 12, 201, 89, 187, 139, 247, 211, 175, 0, 198, 186, 231, 217, 60, 26, 42, 156, 220, 240, 215, 63, 183, 113, 184, 160])], [(100, [64, 188, 205, 213, 206, 99, 31, 12, 201, 89, 187, 139, 247, 211, 175, 0, 198, 186, 231, 217, 60, 26, 42, 156, 220, 240, 215, 63, 183, 113, 184, 160]), (200, [193, 6, 235, 173, 100, 110, 45, 192, 249, 171, 150, 116, 27, 44, 50, 13, 52, 53, 180, 61, 111, 111, 150, 96, 177, 243, 24, 243, 58, 118, 74, 210])])"
proof -
  have o: "ordered_points [(100, [64, 188, 205, 213, 206, 99, 31, 12, 201, 89, 187, 139, 247, 211, 175, 0, 198, 186, 231, 217, 60, 26, 42, 156, 220, 240, 215, 63, 183, 113, 184, 160]), (200, [193, 6, 235, 173, 100, 110, 45, 192, 249, 171, 150, 116, 27, 44, 50, 13, 52, 53, 180, 61, 111, 111, 150, 96, 177, 243, 24, 243, 58, 118, 74, 210])]"
    by (simp add: ordered_points_def)
  have "map_of [(100 :: height, ([193, 6, 235, 173, 100, 110, 45, 192, 249, 171, 150, 116, 27, 44, 50, 13, 52, 53, 180, 61, 111, 111, 150, 96, 177, 243, 24, 243, 58, 118, 74, 210] :: hash))] 100 = Some ([193, 6, 235, 173, 100, 110, 45, 192, 249, 171, 150, 116, 27, 44, 50, 13, 52, 53, 180, 61, 111, 111, 150, 96, 177, 243, 24, 243, 58, 118, 74, 210] :: hash)
      \<and> map_of [(100 :: height, ([64, 188, 205, 213, 206, 99, 31, 12, 201, 89, 187, 139, 247, 211, 175, 0, 198, 186, 231, 217, 60, 26, 42, 156, 220, 240, 215, 63, 183, 113, 184, 160] :: hash)), (200, [193, 6, 235, 173, 100, 110, 45, 192, 249, 171, 150, 116, 27, 44, 50, 13, 52, 53, 180, 61, 111, 111, 150, 96, 177, 243, 24, 243, 58, 118, 74, 210])] 100 = Some ([64, 188, 205, 213, 206, 99, 31, 12, 201, 89, 187, 139, 247, 211, 175, 0, 198, 186, 231, 217, 60, 26, 42, 156, 220, 240, 215, 63, 183, 113, 184, 160] :: hash)
      \<and> ([193, 6, 235, 173, 100, 110, 45, 192, 249, 171, 150, 116, 27, 44, 50, 13, 52, 53, 180, 61, 111, 111, 150, 96, 177, 243, 24, 243, 58, 118, 74, 210] :: hash) \<noteq> ([64, 188, 205, 213, 206, 99, 31, 12, 201, 89, 187, 139, 247, 211, 175, 0, 198, 186, 231, 217, 60, 26, 42, 156, 220, 240, 215, 63, 183, 113, 184, 160] :: hash)"
    by simp
  then have c: "\<exists>k v w. map_of [(100 :: height, ([193, 6, 235, 173, 100, 110, 45, 192, 249, 171, 150, 116, 27, 44, 50, 13, 52, 53, 180, 61, 111, 111, 150, 96, 177, 243, 24, 243, 58, 118, 74, 210] :: hash))] k = Some v
      \<and> map_of [(100 :: height, ([64, 188, 205, 213, 206, 99, 31, 12, 201, 89, 187, 139, 247, 211, 175, 0, 198, 186, 231, 217, 60, 26, 42, 156, 220, 240, 215, 63, 183, 113, 184, 160] :: hash)), (200, [193, 6, 235, 173, 100, 110, 45, 192, 249, 171, 150, 116, 27, 44, 50, 13, 52, 53, 180, 61, 111, 111, 150, 96, 177, 243, 24, 243, 58, 118, 74, 210])] k = Some w \<and> v \<noteq> w"
    by blast
  have n: "\<not> (\<exists>k v w. map_of [(100 :: height, ([64, 188, 205, 213, 206, 99, 31, 12, 201, 89, 187, 139, 247, 211, 175, 0, 198, 186, 231, 217, 60, 26, 42, 156, 220, 240, 215, 63, 183, 113, 184, 160] :: hash)), (300, [64, 188, 205, 213, 206, 99, 31, 12, 201, 89, 187, 139, 247, 211, 175, 0, 198, 186, 231, 217, 60, 26, 42, 156, 220, 240, 215, 63, 183, 113, 184, 160])] k = Some v
      \<and> map_of [(100 :: height, ([64, 188, 205, 213, 206, 99, 31, 12, 201, 89, 187, 139, 247, 211, 175, 0, 198, 186, 231, 217, 60, 26, 42, 156, 220, 240, 215, 63, 183, 113, 184, 160] :: hash)), (200, [193, 6, 235, 173, 100, 110, 45, 192, 249, 171, 150, 116, 27, 44, 50, 13, 52, 53, 180, 61, 111, 111, 150, 96, 177, 243, 24, 243, 58, 118, 74, 210])] k = Some w \<and> v \<noteq> w)"
    by (auto split: if_splits)
  show ?thesis
    using o c n check_for_conflicts_rule [OF o, of "[(100, [193, 6, 235, 173, 100, 110, 45, 192, 249, 171, 150, 116, 27, 44, 50, 13, 52, 53, 180, 61, 111, 111, 150, 96, 177, 243, 24, 243, 58, 118, 74, 210])]"]
      check_for_conflicts_rule [OF o, of "[(100, [64, 188, 205, 213, 206, 99, 31, 12, 201, 89, 187, 139, 247, 211, 175, 0, 198, 186, 231, 217, 60, 26, 42, 156, 220, 240, 215, 63, 183, 113, 184, 160]), (300, [64, 188, 205, 213, 206, 99, 31, 12, 201, 89, 187, 139, 247, 211, 175, 0, 198, 186, 231, 217, 60, 26, 42, 156, 220, 240, 215, 63, 183, 113, 184, 160])]"]
    by simp
qed

section \<open>Merging the document into the Store\<close>

text \<open>
  Claim C5. Once the document is parsed, \<open>load_checkpoints_from_json\<close> goes through
  its entries in the order of the document; an entry at a height at or below the greatest
  height the Store had before the call is skipped without error, its hash text neither
  decoded nor compared, and the entries at a greater height go through
  \<open>add_checkpoint\<close> one after the other, the first failure being the failure of the
  load. The right-hand side mentions the skipped entries nowhere.
\<close>

theorem load_checkpoints_from_json_skip_rule:
  assumes "fs json_hashfile_fullpath = Some (Document d)" and "m_points \<noteq> []"
  shows "load_checkpoints_from_json fs json_hashfile_fullpath m_points =
     Inr (add_checkpoints
            (map (\<lambda>l. (height l, hash l))
               (filter (\<lambda>l. Max (fst ` set m_points) < height l) (hashlines d)))
            m_points)"
  using assms
  by (simp add: load_checkpoints_from_json_def get_max_height_nonempty load_hashlines_filter)

theorem load_checkpoints_from_json_skip_rule_witness:
  "[''checkpoints.json'' \<mapsto> Document \<lparr>hashlines =
       [\<lparr>height = 20000, hash = ''zz''\<rparr>,
        \<lparr>height = 25417, hash = ''40bccdd5ce631f0cc959bb8bf7d3af00c6bae7d93c1a2a9cdcf0d73fb771b8a0''\<rparr>,
        \<lparr>height = 25418, hash = ''40bccdd5ce631f0cc959bb8bf7d3af00c6bae7d93c1a2a9cdcf0d73fb771b8a0''\<rparr>]\<rparr>] ''checkpoints.json''
     = Some (Document \<lparr>hashlines =
       [\<lparr>height = 20000, hash = ''zz''\<rparr>,
        \<lparr>height = 25417, hash = ''40bccdd5ce631f0cc959bb8bf7d3af00c6bae7d93c1a2a9cdcf0d73fb771b8a0''\<rparr>,
        \<lparr>height = 25418, hash = ''40bccdd5ce631f0cc959bb8bf7d3af00c6bae7d93c1a2a9cdcf0d73fb771b8a0''\<rparr>]\<rparr>)
   \<and> [(25417 :: height, ([193, 6, 235, 173, 100, 110, 45, 192, 249, 171, 150, 116, 27, 44, 50, 13, 52, 53, 180, 61, 111, 111, 150, 96, 177, 243, 24, 243, 58, 118, 74, 210] :: hash))] \<noteq> []
   \<and> load_checkpoints_from_json
        [''checkpoints.json'' \<mapsto> Document \<lparr>hashlines =
          [\<lparr>height = 20000, hash = ''zz''\<rparr>,
           \<lparr>height = 25417, hash = ''40bccdd5ce631f0cc959bb8bf7d3af00c6bae7d93c1a2a9cdcf0d73fb771b8a0''\<rparr>,
           \<lparr>height = 25418, hash = ''40bccdd5ce631f0cc959bb8bf7d3af00c6bae7d93c1a2a9cdcf0d73fb771b8a0''\<rparr>]\<rparr>]
        ''checkpoints.json'' [(25417, [193, 6, 235, 173, 100, 110, 45, 192, 249, 171, 150, 116, 27, 44, 50, 13, 52, 53, 180, 61, 111, 111, 150, 96, 177, 243, 24, 243, 58, 118, 74, 210])]
     = Inr (Ok, [(25417, [193, 6, 235, 173, 100, 110, 45, 192, 249, 171, 150, 116, 27, 44, 50, 13, 52, 53, 180, 61, 111, 111, 150, 96, 177, 243, 24, 243, 58, 118, 74, 210]), (25418, [64, 188, 205, 213, 206, 99, 31, 12, 201, 89, 187, 139, 247, 211, 175, 0, 198, 186, 231, 217, 60, 26, 42, 156, 220, 240, 215, 63, 183, 113, 184, 160])])"
  using load_checkpoints_from_json_skip_rule
    [of "[''checkpoints.json'' \<mapsto> Document \<lparr>hashlines =
          [\<lparr>height = 20000, hash = ''zz''\<rparr>,
           \<lparr>height = 25417, hash = ''40bccdd5ce631f0cc959bb8bf7d3af00c6bae7d93c1a2a9cdcf0d73fb771b8a0''\<rparr>,
           \<lparr>height = 25418, hash = ''40bccdd5ce631f0cc959bb8bf7d3af00c6bae7d93c1a2a9cdcf0d73fb771b8a0''\<rparr>]\<rparr>]"
        "''checkpoints.json''"
        "\<lparr>hashlines =
          [\<lparr>height = 20000, hash = ''zz''\<rparr>,
           \<lparr>height = 25417, hash = ''40bccdd5ce631f0cc959bb8bf7d3af00c6bae7d93c1a2a9cdcf0d73fb771b8a0''\<rparr>,
           \<lparr>height = 25418, hash = ''40bccdd5ce631f0cc959bb8bf7d3af00c6bae7d93c1a2a9cdcf0d73fb771b8a0''\<rparr>]\<rparr>"
        "[(25417, [193, 6, 235, 173, 100, 110, 45, 192, 249, 171, 150, 116, 27, 44, 50, 13, 52, 53, 180, 61, 111, 111, 150, 96, 177, 243, 24, 243, 58, 118, 74, 210])]"]
  by (simp add: add_checkpoint_def hex_to_pod_def hex_digit_def map_count_def map_end_def)

text \<open>
  Claim C10. When the document exists, \<open>load_checkpoints_from_json\<close> asks for the
  greatest height of the Store before the document is parsed and without a test of
  emptiness: whatever the file holds, the call reads through \<^verbatim>\<open>end()\<close> exactly when
  the Store is empty, and returns exactly when the Store has an entry. The Store is
  empty after the default bootstrap of every network other than the main one.
\<close>

theorem load_checkpoints_from_json_needs_entries:
  assumes "fs json_hashfile_fullpath = Some f"
  shows "(load_checkpoints_from_json fs json_hashfile_fullpath m_points = Inl EndDereferenced)
           = (m_points = [])
     \<and> (\<exists>r. load_checkpoints_from_json fs json_hashfile_fullpath m_points = Inr r)
           = (m_points \<noteq> [])
     \<and> (nettype \<noteq> MAINNET \<longrightarrow>
          load_checkpoints_from_json fs json_hashfile_fullpath
            (snd (init_default_checkpoints hooks nettype [])) = Inl EndDereferenced)"
proof -
  have e: "get_max_height [] = Inl EndDereferenced"
    by (simp add: get_max_height_def max_element_def map_end_def)
  have 1: "(load_checkpoints_from_json fs json_hashfile_fullpath m_points = Inl EndDereferenced)
           = (m_points = [])"
    using assms e
    by (cases "m_points = []")
      (simp_all add: load_checkpoints_from_json_def get_max_height_nonempty
        split: hashfile.splits)
  have 2: "(\<exists>r. load_checkpoints_from_json fs json_hashfile_fullpath m_points = Inr r)
           = (m_points \<noteq> [])"
    using assms e
    by (cases "m_points = []")
      (simp_all add: load_checkpoints_from_json_def get_max_height_nonempty
        split: hashfile.splits)
  have 3: "load_checkpoints_from_json fs json_hashfile_fullpath
            (snd (init_default_checkpoints hooks nettype [])) = Inl EndDereferenced"
    if "nettype \<noteq> MAINNET"
    using that assms e
    by (simp add: init_default_checkpoints_no_table load_checkpoints_from_json_def)
  from 1 2 3 show ?thesis
    by blast
qed

theorem load_checkpoints_from_json_needs_entries_witness:
  "[''checkpoints.json'' \<mapsto> Malformed] ''checkpoints.json'' = Some Malformed
   \<and> TESTNET \<noteq> MAINNET
   \<and> load_checkpoints_from_json [''checkpoints.json'' \<mapsto> Malformed] ''checkpoints.json'' []
       = Inl EndDereferenced
   \<and> load_checkpoints_from_json [''checkpoints.json'' \<mapsto> Malformed] ''checkpoints.json''
        (snd (init_default_checkpoints False TESTNET [])) = Inl EndDereferenced
   \<and> (\<exists>r. load_checkpoints_from_json [''checkpoints.json'' \<mapsto> Malformed]
        ''checkpoints.json'' [(5, null_hash)] = Inr r)"
  using load_checkpoints_from_json_needs_entries
      [of "[''checkpoints.json'' \<mapsto> Malformed]" "''checkpoints.json''" Malformed "[]"
          TESTNET False]
    load_checkpoints_from_json_needs_entries
      [of "[''checkpoints.json'' \<mapsto> Malformed]" "''checkpoints.json''" Malformed
          "[(5, null_hash)]" TESTNET False]
  by simp


end
